theory Spec2Isabelle
  imports Complex_Main
begin

section \<open>Python values\<close>

text \<open>
  The detector passes plain Python dictionaries around (\<^verbatim>\<open>Dict[str, Any]\<close>), so the
  model keeps them dynamic: a value is \<open>None\<close>, a bool, an int, a float, a string, a list
  or a dictionary. A dictionary is an association list with unique keys, looked up with
  \<open>map_of\<close>. Python floats are modelled as rationals: every float literal of the source
  denotes its decimal value and arithmetic on scores is exact, so rounding in the last
  binary digit, infinities and NaN are outside the model.
\<close>

datatype pyval =
    PNone
  | PBool bool
  | PInt int
  | PFloat rat
  | PStr string
  | PList "pyval list"
  | PDict "(string \<times> pyval) list"

type_synonym pydict = "(string \<times> pyval) list"

text \<open>Exceptions carry the text that \<^verbatim>\<open>str(e)\<close> yields.\<close>

datatype py_error =
    KeyError string
  | TypeError string
  | AttributeError string
  | IndexError string
  | ValueError string
  | IOError string

fun str_exc :: "py_error \<Rightarrow> string" where
  "str_exc (KeyError k) = [CHR 0x27] @ k @ [CHR 0x27]"
| "str_exc (TypeError m) = m"
| "str_exc (AttributeError m) = m"
| "str_exc (IndexError m) = m"
| "str_exc (ValueError m) = m"
| "str_exc (IOError m) = m"

text \<open>Sequencing of statements that may raise: the first exception ends the block.\<close>

definition bind_err :: "py_error + 'a \<Rightarrow> ('a \<Rightarrow> py_error + 'b) \<Rightarrow> py_error + 'b" where
  "bind_err m f = (case m of Inl e \<Rightarrow> Inl e | Inr x \<Rightarrow> f x)"

text \<open>Truth value of an object in a condition (\<^verbatim>\<open>if v:\<close>).\<close>

fun truthy :: "pyval \<Rightarrow> bool" where
  "truthy PNone = False"
| "truthy (PBool b) = b"
| "truthy (PInt i) = (i \<noteq> 0)"
| "truthy (PFloat r) = (r \<noteq> 0)"
| "truthy (PStr s) = (s \<noteq> [])"
| "truthy (PList xs) = (xs \<noteq> [])"
| "truthy (PDict d) = (d \<noteq> [])"

text \<open>\<^verbatim>\<open>len(v)\<close>: defined on strings, lists and dictionaries, a TypeError elsewhere.\<close>

fun py_len :: "pyval \<Rightarrow> py_error + nat" where
  "py_len (PStr s) = Inr (length s)"
| "py_len (PList xs) = Inr (length xs)"
| "py_len (PDict d) = Inr (length d)"
| "py_len v = Inl (TypeError ''object has no len()'')"

text \<open>\<^verbatim>\<open>v > c\<close> for a numeric literal \<open>c\<close>: bools count as 0 and 1, other types raise.\<close>

fun py_gt :: "pyval \<Rightarrow> rat \<Rightarrow> py_error + bool" where
  "py_gt (PBool b) c = Inr ((if b then 1 else 0) > c)"
| "py_gt (PInt i) c = Inr (of_int i > c)"
| "py_gt (PFloat r) c = Inr (r > c)"
| "py_gt v c = Inl (TypeError ''ordering not supported between these instances'')"

text \<open>\<^verbatim>\<open>d[k]\<close> on a dictionary: a KeyError when the key is absent.\<close>

definition py_getitem :: "pydict \<Rightarrow> string \<Rightarrow> py_error + pyval" where
  "py_getitem d k = (case map_of d k of None \<Rightarrow> Inl (KeyError k) | Some v \<Rightarrow> Inr v)"

text \<open>\<^verbatim>\<open>d.get(k, default)\<close> on a dictionary.\<close>

definition dict_get :: "pydict \<Rightarrow> string \<Rightarrow> pyval \<Rightarrow> pyval" where
  "dict_get d k dflt = (case map_of d k of None \<Rightarrow> dflt | Some v \<Rightarrow> v)"

text \<open>
  \<^verbatim>\<open>v.get(k, default)\<close> on an arbitrary object: only dictionaries have the method, any
  other value raises AttributeError.
\<close>

fun py_get :: "pyval \<Rightarrow> string \<Rightarrow> pyval \<Rightarrow> py_error + pyval" where
  "py_get (PDict d) k dflt = Inr (dict_get d k dflt)"
| "py_get v k dflt = Inl (AttributeError ''object has no attribute get'')"

text \<open>\<^verbatim>\<open>v[k]\<close> on an arbitrary object, used where the source indexes a sub-record.\<close>

fun py_index :: "pyval \<Rightarrow> string \<Rightarrow> py_error + pyval" where
  "py_index (PDict d) k = py_getitem d k"
| "py_index v k = Inl (TypeError ''object is not subscriptable'')"

section \<open>The rule-based scorer (\<^verbatim>\<open>rule_based_scoring\<close>)\<close>

text \<open>
  The source accumulates into the local variable \<open>score\<close>, statement by statement. Each
  block of the source (marked there by a comment) is a function from the score so far to
  the score after the block, or to the exception that leaves the function.
\<close>

definition url_based_features :: "pydict \<Rightarrow> rat \<Rightarrow> py_error + rat" where
  "url_based_features features score =
     bind_err (py_getitem features ''has_ip'') (\<lambda>has_ip.
     let score = (if truthy has_ip then score + 3/10 else score) in
     bind_err (py_getitem features ''suspicious_patterns'') (\<lambda>patterns.
     bind_err (if truthy patterns
               then bind_err (py_len patterns) (\<lambda>n. Inr (score + 2/10 * of_nat n))
               else Inr score) (\<lambda>score.
     bind_err (py_getitem features ''domain_length'') (\<lambda>domain_length.
     bind_err (py_gt domain_length 30) (\<lambda>long.
     let score = (if long then score + 1/10 else score) in
     bind_err (py_getitem features ''subdomain_count'') (\<lambda>subdomain_count.
     bind_err (py_gt subdomain_count 3) (\<lambda>many.
     Inr (if many then score + 2/10 else score))))))))"

definition ssl_based_features :: "pydict \<Rightarrow> rat \<Rightarrow> py_error + rat" where
  "ssl_based_features features score =
     (let ssl_info = dict_get features ''ssl_info'' (PDict []) in
      bind_err (py_get ssl_info ''valid'' (PBool False)) (\<lambda>valid.
      let score = (if \<not> truthy valid then score + 3/10 else score) in
      bind_err (py_get ssl_info ''is_self_signed'' (PBool False)) (\<lambda>self_signed.
      Inr (if truthy self_signed then score + 2/10 else score))))"

definition content_based_features :: "pydict \<Rightarrow> rat \<Rightarrow> py_error + rat" where
  "content_based_features features score =
     (let content = dict_get features ''content_analysis'' (PDict []) in
      bind_err (py_get content ''suspicious_keywords'' PNone) (\<lambda>keywords.
      bind_err (if truthy keywords
                then bind_err (py_index content ''suspicious_keywords'') (\<lambda>kws.
                     bind_err (py_len kws) (\<lambda>n. Inr (score + 1/10 * of_nat n)))
                else Inr score) (\<lambda>score.
      bind_err (py_get content ''has_password_field'' (PBool False)) (\<lambda>password.
      let score = (if truthy password then score + 1/10 else score) in
      bind_err (py_get content ''external_links_count'' (PInt 0)) (\<lambda>links.
      bind_err (py_gt links 10) (\<lambda>many.
      Inr (if many then score + 1/10 else score)))))))"

definition domain_based_features :: "pydict \<Rightarrow> rat \<Rightarrow> py_error + rat" where
  "domain_based_features features score =
     (let domain_info = dict_get features ''domain_info'' (PDict []) in
      bind_err (py_get domain_info ''is_new_domain'' (PBool False)) (\<lambda>new.
      Inr (if truthy new then score + 2/10 else score)))"

definition whitelist_override :: "pydict \<Rightarrow> rat \<Rightarrow> py_error + rat" where
  "whitelist_override features score =
     bind_err (py_getitem features ''is_whitelisted'') (\<lambda>w.
     Inr (if truthy w then score - 5/10 else score))"

text \<open>
  The value of \<open>score\<close> when control reaches the \<^verbatim>\<open>return\<close> statement: the raw
  weighted sum, before clamping.
\<close>

definition raw_score :: "pydict \<Rightarrow> py_error + rat" where
  "raw_score features =
     bind_err (url_based_features features 0) (\<lambda>score.
     bind_err (ssl_based_features features score) (\<lambda>score.
     bind_err (content_based_features features score) (\<lambda>score.
     bind_err (domain_based_features features score) (\<lambda>score.
     whitelist_override features score))))"

definition rule_based_scoring :: "pydict \<Rightarrow> py_error + rat" where
  "rule_based_scoring features =
     bind_err (raw_score features) (\<lambda>score. Inr (min 1 (max 0 score)))"

section \<open>The risk label (\<^verbatim>\<open>calculate_risk_level\<close>)\<close>

definition calculate_risk_level :: "pydict \<Rightarrow> pyval \<Rightarrow> py_error + string" where
  "calculate_risk_level features ai_score =
     bind_err (py_getitem features ''is_whitelisted'') (\<lambda>w.
     if truthy w then Inr ''LOW''
     else bind_err (py_gt ai_score (7/10)) (\<lambda>high.
          if high then Inr ''HIGH''
          else bind_err (py_gt ai_score (4/10)) (\<lambda>medium.
               if medium then Inr ''MEDIUM'' else Inr ''LOW'')))"

section \<open>The remote classifier and its fallback (\<^verbatim>\<open>get_ai_prediction\<close>)\<close>

text \<open>
  What \<^verbatim>\<open>requests.post\<close> did: it raised (connection refused, timeout, no endpoint
  configured, features not serialisable), or it returned a response with a status code
  and a body. The body is kept as the value \<^verbatim>\<open>response.json()\<close> decodes it to, \<open>None\<close>
  when the body is not JSON and decoding raises.
\<close>

datatype post_outcome =
    PostError string
  | PostResponse nat "pyval option"

text \<open>The body of the \<^verbatim>\<open>try\<close> block.\<close>

definition remote_classifier :: "post_outcome \<Rightarrow> py_error + pyval" where
  "remote_classifier outcome =
     (case outcome of
        PostError e \<Rightarrow> Inl (IOError e)
      | PostResponse status body \<Rightarrow>
          (case body of
             None \<Rightarrow> Inl (ValueError ''response body is not JSON'')
           | Some decoded \<Rightarrow> py_get decoded ''phishing_probability'' (PFloat 0)))"

text \<open>
  The bare \<^verbatim>\<open>except:\<close> catches whatever the block raised and calls the rule-based scorer;
  an exception of the scorer itself leaves the function.
\<close>

definition get_ai_prediction :: "pydict \<Rightarrow> post_outcome \<Rightarrow> py_error + pyval" where
  "get_ai_prediction features outcome =
     (case remote_classifier outcome of
        Inr probability \<Rightarrow> Inr probability
      | Inl e \<Rightarrow> bind_err (rule_based_scoring features) (\<lambda>score. Inr (PFloat score)))"

section \<open>The TLS inspector (\<^verbatim>\<open>check_ssl_certificate\<close>)\<close>

text \<open>
  \<^verbatim>\<open>getpeercert()\<close> describes a validated certificate by its issuer and subject, each a
  tuple of relative distinguished names, each of those a non-empty tuple of
  (attribute, value) pairs, and by its expiry date. The connection attempt either raised
  (timeout, refused connection, failed handshake, chain not trusted) or produced such
  a certificate.
\<close>

type_synonym name_pair = "string \<times> string"
type_synonym rdn = "name_pair \<times> name_pair list"

record peer_cert =
  issuer :: "rdn list"
  subject :: "rdn list"
  notAfter :: string

datatype tls_outcome =
    TlsError string
  | PeerCert peer_cert

text \<open>\<^verbatim>\<open>d[k] = v\<close> and \<^verbatim>\<open>dict(pairs)\<close>: a repeated key keeps its place and takes the later value.\<close>

definition dict_set :: "pydict \<Rightarrow> string \<Rightarrow> pyval \<Rightarrow> pydict" where
  "dict_set d k v =
     (case map_of d k of
        None \<Rightarrow> d @ [(k, v)]
      | Some old \<Rightarrow> map (\<lambda>(k', v'). if k' = k then (k', v) else (k', v')) d)"

definition py_dict :: "(string \<times> pyval) list \<Rightarrow> pydict" where
  "py_dict pairs = foldl (\<lambda>d (k, v). dict_set d k v) [] pairs"

text \<open>\<^verbatim>\<open>dict(x[0] for x in name)\<close>: the first pair of every relative distinguished name.\<close>

definition first_pairs :: "rdn list \<Rightarrow> pydict" where
  "first_pairs name = py_dict (map (\<lambda>x. (fst (fst x), PStr (snd (fst x)))) name)"

definition check_ssl_certificate :: "tls_outcome \<Rightarrow> pydict" where
  "check_ssl_certificate handshake =
     (case handshake of
        PeerCert cert \<Rightarrow>
          [(''valid'', PBool True),
           (''issuer'', PDict (first_pairs (issuer cert))),
           (''subject'', PDict (first_pairs (subject cert))),
           (''expires'', PStr (notAfter cert)),
           (''is_self_signed'', PBool (issuer cert = subject cert))]
      | TlsError e \<Rightarrow>
          [(''valid'', PBool False),
           (''error'', PStr e),
           (''is_self_signed'', PBool True)])"

section \<open>The content analyser (\<^verbatim>\<open>analyze_content\<close>)\<close>

text \<open>
  The page as BeautifulSoup presents it to the analyser: its text, its forms (each the
  \<open>type\<close> attributes of its \<open>input\<close> elements, \<open>None\<close> for an input without one), the
  \<open>href\<close> of every anchor that has one, in document order, its title (no title element,
  a title without a single string, or a string) and whether a favicon link exists.
  \<open>FetchError\<close> stands for an exception of \<^verbatim>\<open>requests.get\<close> or of the parser, with its text.
\<close>

record page =
  text_of :: string
  forms :: "string option list list"
  hrefs :: "string list"
  title :: "string option option"
  favicon :: bool

datatype fetch_outcome =
    FetchError string
  | Fetched page

text \<open>\<^verbatim>\<open>s.startswith(p)\<close>, \<^verbatim>\<open>kw in s\<close> and \<^verbatim>\<open>s.lower()\<close> on ASCII text.\<close>

fun startswith :: "string \<Rightarrow> string \<Rightarrow> bool" where
  "startswith s [] = True"
| "startswith [] (p # ps) = False"
| "startswith (c # cs) (p # ps) = (c = p \<and> startswith cs ps)"

fun contains :: "string \<Rightarrow> string \<Rightarrow> bool" where
  "contains [] kw = (kw = [])"
| "contains (c # cs) kw = (startswith (c # cs) kw \<or> contains cs kw)"

definition lower_char :: "char \<Rightarrow> char" where
  "lower_char c =
     (if 65 \<le> (of_char c :: nat) \<and> (of_char c :: nat) \<le> 90
      then char_of ((of_char c :: nat) + 32) else c)"

definition lower :: "string \<Rightarrow> string" where
  "lower s = map lower_char s"

definition suspicious_keywords :: "string list" where
  "suspicious_keywords =
     [''verify account'', ''suspended'', ''urgent action'',
      ''click here immediately'', ''limited time'', ''act now'',
      ''confirm identity'', ''update payment'', ''security alert'']"

text \<open>
  The list comprehension over the anchors. \<open>netloc\<close> is \<^verbatim>\<open>urlparse(u).netloc\<close>, which
  raises ValueError on some inputs; the first exception ends the comprehension.
\<close>

fun external_links ::
  "(string \<Rightarrow> py_error + string) \<Rightarrow> string \<Rightarrow> string list \<Rightarrow> py_error + string list" where
  "external_links netloc url [] = Inr []"
| "external_links netloc url (href # links) =
     bind_err (if startswith href ''http''
               then bind_err (netloc href) (\<lambda>theirs.
                    bind_err (netloc url) (\<lambda>ours. Inr (theirs \<noteq> ours)))
               else Inr False) (\<lambda>keep.
     bind_err (external_links netloc url links) (\<lambda>rest.
     Inr (if keep then href # rest else rest)))"

definition analyze_content ::
  "(string \<Rightarrow> py_error + string) \<Rightarrow> string \<Rightarrow> fetch_outcome \<Rightarrow> pydict" where
  "analyze_content netloc url response =
     (case (case response of
              FetchError e \<Rightarrow> Inl (IOError e)
            | Fetched soup \<Rightarrow>
                (let text_content = lower (text_of soup);
                     found_keywords = filter (\<lambda>kw. contains text_content kw) suspicious_keywords;
                     has_password_field =
                       list_ex (\<lambda>form. list_ex (\<lambda>t. t = Some ''password'') form) (forms soup)
                 in bind_err (external_links netloc url (hrefs soup)) (\<lambda>external.
                    Inr [(''suspicious_keywords'', PList (map PStr found_keywords)),
                         (''has_forms'', PBool (length (forms soup) > 0)),
                         (''has_password_field'', PBool has_password_field),
                         (''form_count'', PInt (int (length (forms soup)))),
                         (''external_links_count'', PInt (int (length external))),
                         (''title'', (case title soup of
                                        None \<Rightarrow> PStr []
                                      | Some None \<Rightarrow> PNone
                                      | Some (Some s) \<Rightarrow> PStr s)),
                         (''has_favicon'', PBool (favicon soup))]))) of
        Inr result \<Rightarrow> result
      | Inl e \<Rightarrow> [(''error'', PStr (str_exc e)), (''analyzed'', PBool False)])"

section \<open>The registration lookup (\<^verbatim>\<open>get_domain_info\<close>)\<close>

text \<open>
  The \<open>creation_date\<close> attribute of a whois entry is \<open>None\<close>, a datetime, a string the
  library could not parse, or a list of such values. A datetime is the number of
  microseconds since a fixed origin, so that the \<open>days\<close> of a difference is its floor
  division by the length of a day.
\<close>

datatype whois_value =
    WNone
  | WDatetime int
  | WStr string
  | WList "whois_value list"

record whois_entry =
  creation_date :: whois_value
  registrar :: pyval

datatype whois_outcome =
    WhoisError string
  | WhoisEntry whois_entry

fun wtruthy :: "whois_value \<Rightarrow> bool" where
  "wtruthy WNone = False"
| "wtruthy (WDatetime t) = True"
| "wtruthy (WStr s) = (s \<noteq> [])"
| "wtruthy (WList xs) = (xs \<noteq> [])"

definition microseconds_per_day :: int where
  "microseconds_per_day = 86400000000"

text \<open>\<^verbatim>\<open>(now - v).days\<close>: only a datetime can be subtracted from a datetime.\<close>

fun days_since :: "int \<Rightarrow> whois_value \<Rightarrow> py_error + int" where
  "days_since now (WDatetime t) = Inr ((now - t) div microseconds_per_day)"
| "days_since now v = Inl (TypeError ''unsupported operand type(s) for -'')"

text \<open>The two statements that normalise \<open>creation_date\<close>: a list is replaced by its element 0.\<close>

fun first_if_list :: "whois_value \<Rightarrow> py_error + whois_value" where
  "first_if_list (WList []) = Inl (IndexError ''list index out of range'')"
| "first_if_list (WList (v # vs)) = Inr v"
| "first_if_list v = Inr v"

text \<open>
  \<open>str_datetime\<close> is \<^verbatim>\<open>str\<close> on a datetime and \<open>now\<close> the value of \<^verbatim>\<open>datetime.now()\<close>.
  Where \<^verbatim>\<open>str(creation_date)\<close> is reached, the subtraction before it has succeeded, so
  the value is a datetime; the other cases of that \<open>case\<close> are never evaluated.
\<close>

definition get_domain_info :: "(int \<Rightarrow> string) \<Rightarrow> int \<Rightarrow> whois_outcome \<Rightarrow> pydict" where
  "get_domain_info str_datetime now lookup =
     (case (case lookup of
              WhoisError e \<Rightarrow> Inl (IOError e)
            | WhoisEntry w \<Rightarrow>
                bind_err (first_if_list (creation_date w)) (\<lambda>creation_date.
                bind_err (if wtruthy creation_date then days_since now creation_date
                          else Inr 0) (\<lambda>days_old.
                Inr [(''creation_date'',
                        (if wtruthy creation_date
                         then (case creation_date of
                                 WDatetime t \<Rightarrow> PStr (str_datetime t)
                               | WStr s \<Rightarrow> PStr s
                               | _ \<Rightarrow> PNone)
                         else PNone)),
                     (''days_old'', PInt days_old),
                     (''registrar'', registrar w),
                     (''is_new_domain'',
                        PBool (if wtruthy creation_date then days_old < 30 else True))]))) of
        Inr result \<Rightarrow> result
      | Inl e \<Rightarrow> [(''error'', PStr (str_exc e)), (''is_new_domain'', PBool True)])"

section \<open>Lexical features and the pipeline (\<^verbatim>\<open>analyze_url\<close>)\<close>

text \<open>
  \<^verbatim>\<open>re.search(r'\d+\.\d+\.\d+\.\d+', s)\<close> on ASCII text: \<open>digit_groups n s\<close> holds when a
  prefix of \<open>s\<close> is a run of digits followed by \<open>n\<close> more runs, each after a dot, and the
  search tries every start position.
\<close>

definition is_digit :: "char \<Rightarrow> bool" where
  "is_digit c = (48 \<le> (of_char c :: nat) \<and> (of_char c :: nat) \<le> 57)"

fun digit_groups :: "nat \<Rightarrow> string \<Rightarrow> bool" where
  "digit_groups n [] = False"
| "digit_groups n (c # cs) =
     (is_digit c \<and>
      (digit_groups n cs \<or>
       (case n of
          0 \<Rightarrow> True
        | Suc m \<Rightarrow> (case cs of [] \<Rightarrow> False | d # ds \<Rightarrow> d = CHR ''.'' \<and> digit_groups m ds))))"

fun search_dotted_quad :: "string \<Rightarrow> bool" where
  "search_dotted_quad [] = False"
| "search_dotted_quad (c # cs) =
     (digit_groups (Suc (Suc (Suc 0))) (c # cs) \<or> search_dotted_quad cs)"

text \<open>\<^verbatim>\<open>s.split(sep)\<close> for a one-character separator: one more piece than separators.\<close>

fun split_on :: "char \<Rightarrow> string \<Rightarrow> string list" where
  "split_on sep [] = [[]]"
| "split_on sep (c # cs) =
     (if c = sep then [] # split_on sep cs
      else (case split_on sep cs of
              [] \<Rightarrow> [[c]]
            | piece # pieces \<Rightarrow> (c # piece) # pieces))"

text \<open>The configuration as \<^verbatim>\<open>__init__\<close> reads it from the JSON file.\<close>

record config =
  suspicious_patterns :: "string list"
  whitelist_domains :: "string list"
  ai_model_endpoint :: "string option"

text \<open>
  The library functions the detector calls on strings: \<^verbatim>\<open>urlparse(u).netloc\<close> (which may
  raise ValueError), \<^verbatim>\<open>re.search(pattern, u, re.IGNORECASE)\<close> as a truth value (which may
  raise on a pattern that does not compile) and \<^verbatim>\<open>str\<close> on a datetime.
\<close>

record library =
  urlparse_netloc :: "string \<Rightarrow> py_error + string"
  re_search_ignorecase :: "string \<Rightarrow> string \<Rightarrow> py_error + bool"
  datetime_str :: "int \<Rightarrow> string"

text \<open>
  What the network answers during one analysis: the TLS handshake with the host, the GET
  of the page, the whois lookup, the clock, and the classifier endpoint's answer to the
  posted features.
\<close>

record world =
  tls_handshake :: tls_outcome
  http_get :: fetch_outcome
  whois_lookup :: whois_outcome
  clock :: int
  classifier_post :: "pydict \<Rightarrow> post_outcome"

text \<open>The loop of \<^verbatim>\<open>check_suspicious_patterns\<close>: every pattern is tried, in order.\<close>

fun check_suspicious_patterns ::
  "(string \<Rightarrow> string \<Rightarrow> py_error + bool) \<Rightarrow> string list \<Rightarrow> string \<Rightarrow> py_error + string list" where
  "check_suspicious_patterns search [] url = Inr []"
| "check_suspicious_patterns search (pattern # patterns) url =
     bind_err (search pattern url) (\<lambda>found.
     bind_err (check_suspicious_patterns search patterns url) (\<lambda>matches.
     Inr (if found then pattern # matches else matches)))"

text \<open>
  The first two statements of \<^verbatim>\<open>analyze_url\<close>: the value of its local variable
  \<open>features\<close>. Parsing the URL and searching a pattern may raise, and nothing catches it.
\<close>

definition extract_features :: "library \<Rightarrow> config \<Rightarrow> world \<Rightarrow> string \<Rightarrow> py_error + pydict" where
  "extract_features lib cfg w url =
     bind_err (urlparse_netloc lib url) (\<lambda>netloc.
     bind_err (check_suspicious_patterns (re_search_ignorecase lib)
                 (suspicious_patterns cfg) url) (\<lambda>matches.
     Inr [(''url'', PStr url),
          (''domain'', PStr netloc),
          (''has_ip'', PBool (search_dotted_quad netloc)),
          (''suspicious_patterns'', PList (map PStr matches)),
          (''domain_length'', PInt (int (length netloc))),
          (''subdomain_count'', PInt (int (length (split_on CHR ''.'' netloc)) - 2)),
          (''is_whitelisted'', PBool (netloc \<in> set (whitelist_domains cfg))),
          (''ssl_info'', PDict (check_ssl_certificate (tls_handshake w))),
          (''content_analysis'',
             PDict (analyze_content (urlparse_netloc lib) url (http_get w))),
          (''domain_info'',
             PDict (get_domain_info (datetime_str lib) (clock w) (whois_lookup w)))]))"


subsection \<open>A reference instance of the library\<close>

text \<open>
  \<^verbatim>\<open>urlparse(u).netloc\<close> for ASCII URLs without surrounding white space: a valid scheme
  and its colon are dropped; if the rest starts with two slashes, the network location
  runs up to the next slash, question mark or hash sign, and an unbalanced square bracket
  in it raises ValueError; otherwise the network location is empty. The theorems below
  hold for every library; this instance evaluates the scenarios.
\<close>

definition is_alpha :: "char \<Rightarrow> bool" where
  "is_alpha c =
     ((65 \<le> (of_char c :: nat) \<and> (of_char c :: nat) \<le> 90) \<or>
      (97 \<le> (of_char c :: nat) \<and> (of_char c :: nat) \<le> 122))"

definition scheme_char :: "char \<Rightarrow> bool" where
  "scheme_char c = (is_alpha c \<or> is_digit c \<or> c = CHR ''+'' \<or> c = CHR ''-'' \<or> c = CHR ''.'')"

definition strip_scheme :: "string \<Rightarrow> string" where
  "strip_scheme url =
     (let scheme = takeWhile (\<lambda>c. c \<noteq> CHR '':'') url in
      if length scheme < length url \<and> scheme \<noteq> [] \<and> is_alpha (hd scheme)
         \<and> list_all scheme_char scheme
      then drop (length scheme + 1) url else url)"

definition netloc_of_url :: "string \<Rightarrow> py_error + string" where
  "netloc_of_url url =
     (let rest = strip_scheme url in
      if take 2 rest = ''//''
      then (let netloc = takeWhile (\<lambda>c. c \<noteq> CHR ''/'' \<and> c \<noteq> CHR ''?'' \<and> c \<noteq> CHR ''#'')
                           (drop 2 rest) in
            if (CHR ''['' \<in> set netloc) \<noteq> (CHR '']'' \<in> set netloc)
            then Inl (ValueError ''Invalid IPv6 URL'') else Inr netloc)
      else Inr [])"

section \<open>Feature vectors and the weighted sum\<close>

text \<open>
  A feature vector is a dictionary in which the five lexical features are present with
  their types, and in which each of the three sub-records is either absent or a
  dictionary whose fields, where present, have their types. Sub-records of a failed
  extractor, which carry only part of the fields, are feature vectors in this sense.
\<close>

fun is_bool :: "pyval \<Rightarrow> bool" where
  "is_bool (PBool b) = True"
| "is_bool v = False"

fun is_int :: "pyval \<Rightarrow> bool" where
  "is_int (PInt i) = True"
| "is_int v = False"

fun is_list :: "pyval \<Rightarrow> bool" where
  "is_list (PList xs) = True"
| "is_list v = False"

definition present :: "(pyval \<Rightarrow> bool) \<Rightarrow> pydict \<Rightarrow> string \<Rightarrow> bool" where
  "present P d k = (case map_of d k of None \<Rightarrow> False | Some v \<Rightarrow> P v)"

definition optional :: "(pyval \<Rightarrow> bool) \<Rightarrow> pydict \<Rightarrow> string \<Rightarrow> bool" where
  "optional P d k = (case map_of d k of None \<Rightarrow> True | Some v \<Rightarrow> P v)"

definition sub_record :: "(pydict \<Rightarrow> bool) \<Rightarrow> pydict \<Rightarrow> string \<Rightarrow> bool" where
  "sub_record P d k =
     (case map_of d k of None \<Rightarrow> True | Some (PDict r) \<Rightarrow> P r | Some v \<Rightarrow> False)"

definition is_feature_vector :: "pydict \<Rightarrow> bool" where
  "is_feature_vector f \<longleftrightarrow>
     present is_bool f ''has_ip'' \<and>
     present is_list f ''suspicious_patterns'' \<and>
     present is_int f ''domain_length'' \<and>
     present is_int f ''subdomain_count'' \<and>
     present is_bool f ''is_whitelisted'' \<and>
     sub_record (\<lambda>r. optional is_bool r ''valid'' \<and> optional is_bool r ''is_self_signed'')
       f ''ssl_info'' \<and>
     sub_record (\<lambda>r. optional is_list r ''suspicious_keywords'' \<and>
                     optional is_bool r ''has_password_field'' \<and>
                     optional is_int r ''external_links_count'')
       f ''content_analysis'' \<and>
     sub_record (\<lambda>r. optional is_bool r ''is_new_domain'') f ''domain_info''"

text \<open>
  The fields as the specification names them: a flag is set when the field is present
  and true, a count is the length of the list in the field, a number the integer in it,
  and the fields of an absent sub-record read as those of an empty one.
\<close>

definition flag :: "pydict \<Rightarrow> string \<Rightarrow> bool" where
  "flag d k = (map_of d k = Some (PBool True))"

definition count_of :: "pydict \<Rightarrow> string \<Rightarrow> nat" where
  "count_of d k = (case map_of d k of Some (PList xs) \<Rightarrow> length xs | _ \<Rightarrow> 0)"

definition number_of :: "pydict \<Rightarrow> string \<Rightarrow> int" where
  "number_of d k = (case map_of d k of Some (PInt i) \<Rightarrow> i | _ \<Rightarrow> 0)"

definition sub_of :: "pydict \<Rightarrow> string \<Rightarrow> pydict" where
  "sub_of d k = (case map_of d k of Some (PDict r) \<Rightarrow> r | _ \<Rightarrow> [])"

text \<open>The weighted sum as the specification lists it, term by term.\<close>

definition weighted_sum :: "pydict \<Rightarrow> rat" where
  "weighted_sum f =
     (if flag f ''has_ip'' then 3/10 else 0)
     + 2/10 * of_nat (count_of f ''suspicious_patterns'')
     + (if number_of f ''domain_length'' > 30 then 1/10 else 0)
     + (if number_of f ''subdomain_count'' > 3 then 2/10 else 0)
     + (if \<not> flag (sub_of f ''ssl_info'') ''valid'' then 3/10 else 0)
     + (if flag (sub_of f ''ssl_info'') ''is_self_signed'' then 2/10 else 0)
     + 1/10 * of_nat (count_of (sub_of f ''content_analysis'') ''suspicious_keywords'')
     + (if flag (sub_of f ''content_analysis'') ''has_password_field'' then 1/10 else 0)
     + (if number_of (sub_of f ''content_analysis'') ''external_links_count'' > 10
        then 1/10 else 0)
     + (if flag (sub_of f ''domain_info'') ''is_new_domain'' then 2/10 else 0)
     - (if flag f ''is_whitelisted'' then 5/10 else 0)"

section \<open>Degraded sub-records, score ranges and the scenario\<close>




text \<open>
  The scenario of the specification: the URL \<^verbatim>\<open>http://192.0.2.10/login\<close>, no configured
  pattern, the default whitelist, and a network on which the handshake, the page fetch,
  the whois lookup and the classifier call all fail.
\<close>

definition scenario_url :: string where
  "scenario_url = ''http://192.0.2.10/login''"

definition scenario_library :: library where
  "scenario_library =
     \<lparr>urlparse_netloc = netloc_of_url,
      re_search_ignorecase = (\<lambda>pattern url. Inr False),
      datetime_str = (\<lambda>t. [])\<rparr>"

definition scenario_config :: config where
  "scenario_config =
     \<lparr>suspicious_patterns = [],
      whitelist_domains = [''google.com'', ''facebook.com'', ''amazon.com''],
      ai_model_endpoint = Some ''http://localhost:8000/predict''\<rparr>"

definition scenario_world :: world where
  "scenario_world =
     \<lparr>tls_handshake = TlsError ''timed out'',
      http_get = FetchError ''connection refused'',
      whois_lookup = WhoisError ''no match'',
      clock = 0,
      classifier_post = (\<lambda>features. PostError ''connection refused'')\<rparr>"

definition scenario_features :: pydict where
  "scenario_features =
     [(''url'', PStr ''http://192.0.2.10/login''),
      (''domain'', PStr ''192.0.2.10''),
      (''has_ip'', PBool True),
      (''suspicious_patterns'', PList []),
      (''domain_length'', PInt 10),
      (''subdomain_count'', PInt 2),
      (''is_whitelisted'', PBool False),
      (''ssl_info'', PDict [(''valid'', PBool False), (''error'', PStr ''timed out''),
                           (''is_self_signed'', PBool True)]),
      (''content_analysis'', PDict [(''error'', PStr ''connection refused''),
                                   (''analyzed'', PBool False)]),
      (''domain_info'', PDict [(''error'', PStr ''no match''),
                              (''is_new_domain'', PBool True)])]"

text \<open>
  Two pages for the content analyser, fetched from \<^verbatim>\<open>http://a.example/\<close>: one repeats
  the same outbound link, the other has a link that \<^verbatim>\<open>urlparse\<close> rejects.
\<close>

definition two_links :: page where
  "two_links = \<lparr>text_of = [], forms = [],
                  hrefs = [''http://b.example/x'', ''http://b.example/x''],
                  title = None, favicon = False\<rparr>"

definition broken_link :: page where
  "broken_link = \<lparr>text_of = [], forms = [], hrefs = [''http://[b/''],
                    title = None, favicon = False\<rparr>"


section \<open>The scorer on feature vectors\<close>

subsection \<open>Reading typed fields\<close>

lemma present_bool: "present is_bool d k \<Longrightarrow> \<exists>b. map_of d k = Some (PBool b)"
  by (auto simp: present_def split: option.splits elim: is_bool.elims)

lemma present_int: "present is_int d k \<Longrightarrow> \<exists>i. map_of d k = Some (PInt i)"
  by (auto simp: present_def split: option.splits elim: is_int.elims)

lemma present_list: "present is_list d k \<Longrightarrow> \<exists>xs. map_of d k = Some (PList xs)"
  by (auto simp: present_def split: option.splits elim: is_list.elims)

lemma optional_bool:
  "optional is_bool d k \<Longrightarrow> map_of d k = None \<or> (\<exists>b. map_of d k = Some (PBool b))"
  by (auto simp: optional_def split: option.splits elim: is_bool.elims)

lemma optional_int:
  "optional is_int d k \<Longrightarrow> map_of d k = None \<or> (\<exists>i. map_of d k = Some (PInt i))"
  by (auto simp: optional_def split: option.splits elim: is_int.elims)

lemma optional_list:
  "optional is_list d k \<Longrightarrow> map_of d k = None \<or> (\<exists>xs. map_of d k = Some (PList xs))"
  by (auto simp: optional_def split: option.splits elim: is_list.elims)

lemma sub_record_cases:
  "sub_record P d k \<Longrightarrow> map_of d k = None \<or> (\<exists>r. map_of d k = Some (PDict r) \<and> P r)"
  by (auto simp: sub_record_def split: option.splits pyval.splits)

subsection \<open>The blocks of the scorer\<close>

lemma url_based_features_sum:
  assumes "present is_bool f ''has_ip''" "present is_list f ''suspicious_patterns''"
    "present is_int f ''domain_length''" "present is_int f ''subdomain_count''"
  shows "url_based_features f s =
     Inr (s + (if flag f ''has_ip'' then 3/10 else 0)
            + 2/10 * of_nat (count_of f ''suspicious_patterns'')
            + (if number_of f ''domain_length'' > 30 then 1/10 else 0)
            + (if number_of f ''subdomain_count'' > 3 then 2/10 else 0))"
proof -
  obtain b where b: "map_of f ''has_ip'' = Some (PBool b)"
    using assms(1) present_bool by blast
  obtain ps where ps: "map_of f ''suspicious_patterns'' = Some (PList ps)"
    using assms(2) present_list by blast
  obtain n where n: "map_of f ''domain_length'' = Some (PInt n)"
    using assms(3) present_int by blast
  obtain m where m: "map_of f ''subdomain_count'' = Some (PInt m)"
    using assms(4) present_int by blast
  show ?thesis
    by (simp add: url_based_features_def bind_err_def py_getitem_def flag_def count_of_def
        number_of_def b ps n m)
qed

lemma ssl_based_features_sum:
  assumes "sub_record (\<lambda>r. optional is_bool r ''valid'' \<and> optional is_bool r ''is_self_signed'')
       f ''ssl_info''"
  shows "ssl_based_features f s =
     Inr (s + (if \<not> flag (sub_of f ''ssl_info'') ''valid'' then 3/10 else 0)
            + (if flag (sub_of f ''ssl_info'') ''is_self_signed'' then 2/10 else 0))"
proof -
  define r where "r = sub_of f ''ssl_info''"
  have get: "dict_get f ''ssl_info'' (PDict []) = PDict r"
    using sub_record_cases [OF assms] by (auto simp: dict_get_def r_def sub_of_def)
  have "optional is_bool r ''valid''" "optional is_bool r ''is_self_signed''"
    using sub_record_cases [OF assms] by (auto simp: r_def sub_of_def optional_def)
  then have "map_of r ''valid'' = None \<or> (\<exists>b. map_of r ''valid'' = Some (PBool b))"
    "map_of r ''is_self_signed'' = None \<or> (\<exists>b. map_of r ''is_self_signed'' = Some (PBool b))"
    by (auto dest: optional_bool)
  then show ?thesis
    unfolding ssl_based_features_def get r_def [symmetric]
    by (auto simp: Let_def bind_err_def dict_get_def flag_def)
qed

lemma content_based_features_sum:
  assumes "sub_record (\<lambda>r. optional is_list r ''suspicious_keywords'' \<and>
                     optional is_bool r ''has_password_field'' \<and>
                     optional is_int r ''external_links_count'')
       f ''content_analysis''"
  shows "content_based_features f s =
     Inr (s + 1/10 * of_nat (count_of (sub_of f ''content_analysis'') ''suspicious_keywords'')
            + (if flag (sub_of f ''content_analysis'') ''has_password_field'' then 1/10 else 0)
            + (if number_of (sub_of f ''content_analysis'') ''external_links_count'' > 10
               then 1/10 else 0))"
proof -
  define r where "r = sub_of f ''content_analysis''"
  have get: "dict_get f ''content_analysis'' (PDict []) = PDict r"
    using sub_record_cases [OF assms] by (auto simp: dict_get_def r_def sub_of_def)
  have "optional is_list r ''suspicious_keywords''" "optional is_bool r ''has_password_field''"
    "optional is_int r ''external_links_count''"
    using sub_record_cases [OF assms] by (auto simp: r_def sub_of_def optional_def)
  then have
    "map_of r ''suspicious_keywords'' = None \<or>
       (\<exists>xs. map_of r ''suspicious_keywords'' = Some (PList xs))"
    "map_of r ''has_password_field'' = None \<or>
       (\<exists>b. map_of r ''has_password_field'' = Some (PBool b))"
    "map_of r ''external_links_count'' = None \<or>
       (\<exists>i. map_of r ''external_links_count'' = Some (PInt i))"
    by (auto dest: optional_bool optional_int optional_list)
  then show ?thesis
    unfolding content_based_features_def get r_def [symmetric]
    by (auto simp: Let_def bind_err_def dict_get_def py_getitem_def flag_def count_of_def
        number_of_def)
qed

lemma domain_based_features_sum:
  assumes "sub_record (\<lambda>r. optional is_bool r ''is_new_domain'') f ''domain_info''"
  shows "domain_based_features f s =
     Inr (s + (if flag (sub_of f ''domain_info'') ''is_new_domain'' then 2/10 else 0))"
proof -
  define r where "r = sub_of f ''domain_info''"
  have get: "dict_get f ''domain_info'' (PDict []) = PDict r"
    using sub_record_cases [OF assms] by (auto simp: dict_get_def r_def sub_of_def)
  have "optional is_bool r ''is_new_domain''"
    using sub_record_cases [OF assms] by (auto simp: r_def sub_of_def optional_def)
  then have "map_of r ''is_new_domain'' = None \<or>
       (\<exists>b. map_of r ''is_new_domain'' = Some (PBool b))"
    by (auto dest: optional_bool)
  then show ?thesis
    unfolding domain_based_features_def get r_def [symmetric]
    by (auto simp: Let_def bind_err_def dict_get_def flag_def)
qed

lemma whitelist_override_sum:
  assumes "present is_bool f ''is_whitelisted''"
  shows "whitelist_override f s = Inr (s - (if flag f ''is_whitelisted'' then 5/10 else 0))"
proof -
  obtain b where b: "map_of f ''is_whitelisted'' = Some (PBool b)"
    using assms present_bool by blast
  show ?thesis
    by (simp add: whitelist_override_def bind_err_def py_getitem_def flag_def b)
qed

lemma raw_score_weighted_sum:
  assumes "is_feature_vector f"
  shows "raw_score f = Inr (weighted_sum f)"
  using assms
  unfolding is_feature_vector_def raw_score_def weighted_sum_def
  by (simp add: url_based_features_sum ssl_based_features_sum content_based_features_sum
      domain_based_features_sum whitelist_override_sum bind_err_def)

lemma rule_based_scoring_clamped_sum:
  assumes "is_feature_vector f"
  shows "rule_based_scoring f = Inr (min 1 (max 0 (weighted_sum f)))"
  by (simp add: rule_based_scoring_def raw_score_weighted_sum [OF assms] bind_err_def)

subsection \<open>The scenario vector\<close>

lemma scenario_is_feature_vector: "is_feature_vector scenario_features"
  by (simp add: is_feature_vector_def scenario_features_def present_def optional_def
      sub_record_def)

lemma scenario_weighted_sum: "weighted_sum scenario_features = 1"
  by (simp add: weighted_sum_def scenario_features_def flag_def count_of_def number_of_def
      sub_of_def)

subsection \<open>Claim C1\<close>



section \<open>The risk label\<close>

lemma calculate_risk_level_bool:
  "map_of f ''is_whitelisted'' = Some (PBool w) \<Longrightarrow>
   calculate_risk_level f (PFloat s) =
     Inr (if w then ''LOW'' else if s > 7/10 then ''HIGH''
          else if s > 4/10 then ''MEDIUM'' else ''LOW'')"
  by (simp add: calculate_risk_level_def bind_err_def py_getitem_def)

subsection \<open>Claim C2\<close>

text \<open>
  C2. For every feature vector and every score: a whitelisted vector is labelled LOW
  whatever the score is (the check comes first, the score is not even inspected);
  otherwise the label is HIGH exactly when the score exceeds 0.7, MEDIUM exactly when it
  exceeds 0.4 without exceeding 0.7, and LOW exactly when it does not exceed 0.4. A
  score of exactly 0.7 is MEDIUM. Two vectors that agree on \<open>is_whitelisted\<close> get the
  same label for the same score.
\<close>

theorem calculate_risk_level_thresholds:
  assumes "map_of f ''is_whitelisted'' = Some (PBool w)"
  shows "(w \<longrightarrow> (\<forall>score. calculate_risk_level f score = Inr ''LOW''))
       \<and> (\<not> w \<longrightarrow>
            (calculate_risk_level f (PFloat s) = Inr ''HIGH'' \<longleftrightarrow> s > 7/10)
          \<and> (calculate_risk_level f (PFloat s) = Inr ''MEDIUM'' \<longleftrightarrow> 4/10 < s \<and> s \<le> 7/10)
          \<and> (calculate_risk_level f (PFloat s) = Inr ''LOW'' \<longleftrightarrow> s \<le> 4/10)
          \<and> calculate_risk_level f (PFloat (7/10)) = Inr ''MEDIUM'')
       \<and> (\<forall>g. map_of g ''is_whitelisted'' = Some (PBool w) \<longrightarrow>
              calculate_risk_level g (PFloat s) = calculate_risk_level f (PFloat s))"
proof (intro conjI impI allI)
  fix score assume w
  then show "calculate_risk_level f score = Inr ''LOW''"
    using assms by (simp add: calculate_risk_level_def bind_err_def py_getitem_def)
next
  assume "\<not> w"
  then show "calculate_risk_level f (PFloat s) = Inr ''HIGH'' \<longleftrightarrow> s > 7/10"
    using calculate_risk_level_bool [OF assms, of s] by simp
next
  assume "\<not> w"
  then show "calculate_risk_level f (PFloat s) = Inr ''MEDIUM'' \<longleftrightarrow> 4/10 < s \<and> s \<le> 7/10"
    using calculate_risk_level_bool [OF assms, of s] by auto
next
  assume "\<not> w"
  then show "calculate_risk_level f (PFloat s) = Inr ''LOW'' \<longleftrightarrow> s \<le> 4/10"
    using calculate_risk_level_bool [OF assms, of s] by auto
next
  assume "\<not> w"
  then show "calculate_risk_level f (PFloat (7/10)) = Inr ''MEDIUM''"
    using calculate_risk_level_bool [OF assms, of "7/10"] by simp
next
  fix g assume "map_of g ''is_whitelisted'' = Some (PBool w)"
  then show "calculate_risk_level g (PFloat s) = calculate_risk_level f (PFloat s)"
    using calculate_risk_level_bool [OF assms, of s] by (simp add: calculate_risk_level_bool)
qed

theorem calculate_risk_level_thresholds_witness:
  "calculate_risk_level scenario_features (PFloat (7/10)) = Inr ''MEDIUM''
   \<and> calculate_risk_level scenario_features (PFloat (71/100)) = Inr ''HIGH''
   \<and> calculate_risk_level scenario_features (PFloat (4/10)) = Inr ''LOW''
   \<and> calculate_risk_level
        [(''has_ip'', PBool True), (''is_whitelisted'', PBool True)] (PFloat 1) = Inr ''LOW''"
proof -
  have h: "map_of scenario_features ''is_whitelisted'' = Some (PBool False)"
    by (simp add: scenario_features_def)
  have k: "map_of [(''has_ip'', PBool True), (''is_whitelisted'', PBool True)]
             ''is_whitelisted'' = Some (PBool True)"
    by simp
  show ?thesis
    using calculate_risk_level_thresholds [OF h, of "7/10"]
      calculate_risk_level_thresholds [OF h, of "71/100"]
      calculate_risk_level_thresholds [OF h, of "4/10"]
      calculate_risk_level_thresholds [OF k, of 1]
    by simp
qed

section \<open>The remote classifier and its fallback\<close>



lemma get_ai_prediction_fallback:
  assumes "is_feature_vector f" "remote_classifier outcome = Inl e"
  shows "get_ai_prediction f outcome = Inr (PFloat (min 1 (max 0 (weighted_sum f))))"
  by (simp add: get_ai_prediction_def assms(2) rule_based_scoring_clamped_sum [OF assms(1)]
      bind_err_def)

subsection \<open>The scenario, evaluated\<close>

lemma scenario_netloc: "netloc_of_url ''http://192.0.2.10/login'' = Inr ''192.0.2.10''"
  by (simp add: netloc_of_url_def strip_scheme_def is_alpha_def
      scheme_char_def is_digit_def)

lemma scenario_extract_features:
  "extract_features scenario_library scenario_config scenario_world scenario_url
   = Inr scenario_features"
  by (simp add: extract_features_def scenario_library_def scenario_config_def
      scenario_world_def scenario_netloc bind_err_def scenario_features_def
      check_ssl_certificate_def analyze_content_def get_domain_info_def is_digit_def
      scenario_url_def)


lemma scenario_rule_based_scoring: "rule_based_scoring scenario_features = Inr 1"
  by (simp add: rule_based_scoring_clamped_sum [OF scenario_is_feature_vector]
      scenario_weighted_sum)

subsection \<open>Claim C3\<close>




subsection \<open>Claim C4\<close>

text \<open>
  C4, as the source has it. On a feature vector, whenever the remote call raises, be it
  a transport error or timeout of the request or a response body that is not a JSON
  object, \<^verbatim>\<open>get_ai_prediction\<close> returns exactly the value of \<^verbatim>\<open>rule_based_scoring\<close> and no
  error reaches the caller. The status code of a response is not inspected: a JSON
  object without the field yields 0.0 and one with the field yields that value,
  whatever the status.
\<close>

theorem get_ai_prediction_fallback_cases:
  assumes "is_feature_vector f"
  shows "\<exists>s. rule_based_scoring f = Inr s
           \<and> get_ai_prediction f (PostError e) = Inr (PFloat s)
           \<and> get_ai_prediction f (PostResponse status None) = Inr (PFloat s)
           \<and> (\<forall>body. (\<forall>d. body \<noteq> PDict d) \<longrightarrow>
                 get_ai_prediction f (PostResponse status (Some body)) = Inr (PFloat s))
           \<and> (map_of d ''phishing_probability'' = None \<longrightarrow>
                 get_ai_prediction f (PostResponse status (Some (PDict d))) = Inr (PFloat 0))
           \<and> (\<forall>v. map_of d ''phishing_probability'' = Some v \<longrightarrow>
                 get_ai_prediction f (PostResponse status (Some (PDict d))) = Inr v)"
proof -
  let ?s = "min 1 (max 0 (weighted_sum f))"
  have s: "rule_based_scoring f = Inr ?s"
    by (rule rule_based_scoring_clamped_sum [OF assms])
  have 1: "get_ai_prediction f (PostError e) = Inr (PFloat ?s)"
    by (rule get_ai_prediction_fallback [OF assms]) (simp add: remote_classifier_def)
  have 2: "get_ai_prediction f (PostResponse status None) = Inr (PFloat ?s)"
    by (rule get_ai_prediction_fallback [OF assms]) (simp add: remote_classifier_def)
  have 3: "get_ai_prediction f (PostResponse status (Some body)) = Inr (PFloat ?s)"
    if "\<forall>d. body \<noteq> PDict d" for body
  proof -
    have "\<exists>x. remote_classifier (PostResponse status (Some body)) = Inl x"
      using that by (cases body) (simp_all add: remote_classifier_def)
    then show ?thesis
      using get_ai_prediction_fallback [OF assms] by blast
  qed
  have 4: "get_ai_prediction f (PostResponse status (Some (PDict d))) = Inr (PFloat 0)"
    if "map_of d ''phishing_probability'' = None"
    using that by (simp add: get_ai_prediction_def remote_classifier_def dict_get_def)
  have 5: "get_ai_prediction f (PostResponse status (Some (PDict d))) = Inr v"
    if "map_of d ''phishing_probability'' = Some v" for v
    using that by (simp add: get_ai_prediction_def remote_classifier_def dict_get_def)
  show ?thesis
  proof (intro exI conjI allI impI)
    show "rule_based_scoring f = Inr ?s" by (rule s)
    show "get_ai_prediction f (PostError e) = Inr (PFloat ?s)" by (rule 1)
    show "get_ai_prediction f (PostResponse status None) = Inr (PFloat ?s)" by (rule 2)
    show "get_ai_prediction f (PostResponse status (Some body)) = Inr (PFloat ?s)"
      if "\<forall>d. body \<noteq> PDict d" for body
      using that by (rule 3)
    show "get_ai_prediction f (PostResponse status (Some (PDict d))) = Inr (PFloat 0)"
      if "map_of d ''phishing_probability'' = None"
      using that by (rule 4)
    show "get_ai_prediction f (PostResponse status (Some (PDict d))) = Inr v"
      if "map_of d ''phishing_probability'' = Some v" for v
      using that by (rule 5)
  qed
qed

theorem get_ai_prediction_fallback_cases_witness:
  "get_ai_prediction scenario_features (PostError ''timed out'') = Inr (PFloat 1)
   \<and> get_ai_prediction scenario_features (PostResponse 200 None) = Inr (PFloat 1)
   \<and> get_ai_prediction scenario_features (PostResponse 200 (Some (PList []))) = Inr (PFloat 1)
   \<and> get_ai_prediction scenario_features (PostResponse 200 (Some (PDict []))) = Inr (PFloat 0)"
proof -
  have h: "is_feature_vector scenario_features"
    by (rule scenario_is_feature_vector)
  show ?thesis
    using get_ai_prediction_fallback_cases [OF h, of "''timed out''" 200 "[]"]
    unfolding scenario_rule_based_scoring
    by simp
qed

text \<open>
  C4, as stated, fails: a response without the field yields 0.0 and a response with
  status 500 that carries the field yields its value, while the rule-based score of the
  same vector is 1.
\<close>

theorem get_ai_prediction_no_fallback_counterexample:
  "get_ai_prediction scenario_features (PostResponse 200 (Some (PDict [])))
     = Inr (PFloat 0)
   \<and> get_ai_prediction scenario_features
       (PostResponse 500 (Some (PDict [(''phishing_probability'', PFloat (1/10))])))
     = Inr (PFloat (1/10))
   \<and> rule_based_scoring scenario_features = Inr 1"
proof (intro conjI)
  show "get_ai_prediction scenario_features (PostResponse 200 (Some (PDict [])))
     = Inr (PFloat 0)"
    by (simp add: get_ai_prediction_def remote_classifier_def dict_get_def)
  show "get_ai_prediction scenario_features
       (PostResponse 500 (Some (PDict [(''phishing_probability'', PFloat (1/10))])))
     = Inr (PFloat (1/10))"
    by (simp add: get_ai_prediction_def remote_classifier_def dict_get_def)
  show "rule_based_scoring scenario_features = Inr 1"
    by (rule scenario_rule_based_scoring)
qed

section \<open>The scenario of the specification\<close>

lemma scenario_no_pattern:
  "check_suspicious_patterns (re_search_ignorecase scenario_library)
     (suspicious_patterns scenario_config) scenario_url = Inr []"
  by (simp add: scenario_config_def)

lemma scenario_raw_score: "raw_score scenario_features = Inr 1"
  using raw_score_weighted_sum [OF scenario_is_feature_vector]
  by (simp only: scenario_weighted_sum)

subsection \<open>Claim C5\<close>

text \<open>
  C5, as the source has it. For the URL \<^verbatim>\<open>http://192.0.2.10/login\<close>, with a failed TLS
  check, a failed content fetch, a failed registration lookup, no pattern matched and a
  host that is not whitelisted, the raw weighted sum is 1.0: 0.3 from the IP host, 0.3
  from the invalid TLS, 0.2 from the self-signed default of the failed TLS check and 0.2
  from the new-domain default of the failed lookup. The clamped score is 1.0 and the
  label on that score is HIGH.
\<close>

theorem scenario_score:
  assumes "urlparse_netloc lib scenario_url = Inr ''192.0.2.10''"
    and "check_suspicious_patterns (re_search_ignorecase lib) (suspicious_patterns cfg)
           scenario_url = Inr []"
    and "''192.0.2.10'' \<notin> set (whitelist_domains cfg)"
    and "tls_handshake w = TlsError e1"
    and "http_get w = FetchError e2"
    and "whois_lookup w = WhoisError e3"
  shows "\<exists>f. extract_features lib cfg w scenario_url = Inr f
           \<and> raw_score f = Inr 1
           \<and> rule_based_scoring f = Inr 1
           \<and> calculate_risk_level f (PFloat 1) = Inr ''HIGH''"
proof -
  let ?f = "[(''url'', PStr scenario_url),
             (''domain'', PStr ''192.0.2.10''),
             (''has_ip'', PBool True),
             (''suspicious_patterns'', PList []),
             (''domain_length'', PInt 10),
             (''subdomain_count'', PInt 2),
             (''is_whitelisted'', PBool False),
             (''ssl_info'', PDict [(''valid'', PBool False), (''error'', PStr e1),
                                  (''is_self_signed'', PBool True)]),
             (''content_analysis'', PDict [(''error'', PStr e2), (''analyzed'', PBool False)]),
             (''domain_info'', PDict [(''error'', PStr e3), (''is_new_domain'', PBool True)])]"
  have f: "extract_features lib cfg w scenario_url = Inr ?f"
    by (simp add: extract_features_def assms bind_err_def check_ssl_certificate_def
        analyze_content_def get_domain_info_def is_digit_def)
  have v: "is_feature_vector ?f"
    by (simp add: is_feature_vector_def present_def optional_def sub_record_def)
  have s: "weighted_sum ?f = 1"
    by (simp add: weighted_sum_def flag_def count_of_def number_of_def sub_of_def)
  have raw: "raw_score ?f = Inr 1"
    using raw_score_weighted_sum [OF v] by (simp only: s)
  have clamped: "rule_based_scoring ?f = Inr 1"
    using rule_based_scoring_clamped_sum [OF v] by (simp add: s)
  have w: "map_of ?f ''is_whitelisted'' = Some (PBool False)"
    by simp
  have label: "calculate_risk_level ?f (PFloat 1) = Inr ''HIGH''"
    by (simp add: calculate_risk_level_bool [OF w])
  show ?thesis
    using f raw clamped label by (intro exI [of _ ?f] conjI)
qed

theorem scenario_score_witness:
  "\<exists>f. extract_features scenario_library scenario_config scenario_world scenario_url = Inr f
       \<and> raw_score f = Inr 1
       \<and> rule_based_scoring f = Inr 1
       \<and> calculate_risk_level f (PFloat 1) = Inr ''HIGH''"
proof -
  have 1: "urlparse_netloc scenario_library scenario_url = Inr ''192.0.2.10''"
    by (simp add: scenario_library_def scenario_url_def scenario_netloc)
  have 3: "''192.0.2.10'' \<notin> set (whitelist_domains scenario_config)"
    by (simp add: scenario_config_def)
  have 4: "tls_handshake scenario_world = TlsError ''timed out''"
    by (simp add: scenario_world_def)
  have 5: "http_get scenario_world = FetchError ''connection refused''"
    by (simp add: scenario_world_def)
  have 6: "whois_lookup scenario_world = WhoisError ''no match''"
    by (simp add: scenario_world_def)
  show ?thesis
    by (rule scenario_score [OF 1 scenario_no_pattern 3 4 5 6])
qed

text \<open>
  C5, as stated, fails: the raw sum and the score of the scenario vector are 1.0, not
  0.8, because the record of a failed TLS check also says \<open>is_self_signed\<close>.
\<close>

theorem scenario_score_counterexample:
  "extract_features scenario_library scenario_config scenario_world scenario_url
     = Inr scenario_features
   \<and> raw_score scenario_features = Inr 1
   \<and> raw_score scenario_features \<noteq> Inr (8/10)
   \<and> rule_based_scoring scenario_features \<noteq> Inr (8/10)"
  by (simp add: scenario_extract_features scenario_raw_score scenario_rule_based_scoring)

section \<open>The TLS inspector\<close>

subsection \<open>Claim C6\<close>

text \<open>
  C6. Whatever the connection attempt does, \<^verbatim>\<open>check_ssl_certificate\<close> returns a record
  (the handler catches every exception of the block, so none reaches the caller). When
  the connection or the handshake fails, for whatever cause, the record is
  \<open>valid = False\<close>, the text of the cause as \<open>error\<close>, and \<open>is_self_signed = True\<close>. When a
  certificate is obtained, the record has \<open>valid = True\<close>, no \<open>error\<close>, and
  \<open>is_self_signed\<close> is true exactly when the issuer of the certificate equals its subject.
\<close>

theorem check_ssl_certificate_outcomes:
  "check_ssl_certificate (TlsError e) =
     [(''valid'', PBool False), (''error'', PStr e), (''is_self_signed'', PBool True)]
   \<and> map_of (check_ssl_certificate (PeerCert cert)) ''valid'' = Some (PBool True)
   \<and> map_of (check_ssl_certificate (PeerCert cert)) ''is_self_signed''
       = Some (PBool (issuer cert = subject cert))
   \<and> map_of (check_ssl_certificate (PeerCert cert)) ''error'' = None"
  by (simp add: check_ssl_certificate_def)

section \<open>The registration lookup\<close>


lemma get_domain_info_has_is_new_domain:
  "\<exists>b. map_of (get_domain_info str now lookup) ''is_new_domain'' = Some (PBool b)"
proof (cases lookup)
  case (WhoisError e)
  then show ?thesis by (auto simp: get_domain_info_def)
next
  case (WhoisEntry w)
  show ?thesis
  proof (cases "first_if_list (creation_date w)")
    case (Inl e)
    then show ?thesis by (auto simp: get_domain_info_def WhoisEntry bind_err_def)
  next
    case (Inr v)
    then show ?thesis
      by (cases v) (auto simp: get_domain_info_def WhoisEntry bind_err_def)
  qed
qed

subsection \<open>Claim C7\<close>



section \<open>The content analyser\<close>

lemma external_links_filter:
  "\<forall>u\<in>set (url # links). \<exists>n. netloc u = Inr n \<Longrightarrow>
   external_links netloc url links =
     Inr (filter (\<lambda>href. startswith href ''http'' \<and> netloc href \<noteq> netloc url) links)"
proof (induction links)
  case Nil
  then show ?case by simp
next
  case (Cons href links)
  obtain ours where ours: "netloc url = Inr ours"
    using Cons.prems by auto
  obtain theirs where theirs: "netloc href = Inr theirs"
    using Cons.prems by auto
  have "external_links netloc url links =
     Inr (filter (\<lambda>href. startswith href ''http'' \<and> netloc href \<noteq> netloc url) links)"
    using Cons by simp
  then show ?case
    by (simp add: bind_err_def ours theirs)
qed

lemma netloc_a_example: "netloc_of_url ''http://a.example/'' = Inr ''a.example''"
  by (simp add: netloc_of_url_def strip_scheme_def is_alpha_def scheme_char_def is_digit_def)

lemma netloc_b_example: "netloc_of_url ''http://b.example/x'' = Inr ''b.example''"
  by (simp add: netloc_of_url_def strip_scheme_def is_alpha_def scheme_char_def is_digit_def)

lemma analyze_content_failure:
  "analyze_content netloc url (FetchError e) =
     [(''error'', PStr e), (''analyzed'', PBool False)]"
  by (simp add: analyze_content_def)

lemma analyze_content_parse_failure:
  "external_links netloc url (hrefs soup) = Inl x \<Longrightarrow>
   analyze_content netloc url (Fetched soup) =
     [(''error'', PStr (str_exc x)), (''analyzed'', PBool False)]"
  by (simp add: analyze_content_def Let_def bind_err_def)

lemma netloc_broken: "netloc_of_url ''http://[b/'' = Inl (ValueError ''Invalid IPv6 URL'')"
  by (simp add: netloc_of_url_def strip_scheme_def is_alpha_def scheme_char_def is_digit_def)

subsection \<open>Claim C8\<close>

text \<open>
  C8, as the source has it. For every fetched page whose links parse,
  \<open>external_links_count\<close> is the number of anchors, each occurrence counted, whose
  \<open>href\<close> starts with \<open>http\<close> and whose host differs from the host of the analysed URL.
\<close>

theorem analyze_content_external_links_count:
  assumes "\<forall>u\<in>set (url # hrefs soup). \<exists>n. netloc u = Inr n"
  shows "map_of (analyze_content netloc url (Fetched soup)) ''external_links_count'' =
     Some (PInt (int (length
       (filter (\<lambda>href. startswith href ''http'' \<and> netloc href \<noteq> netloc url)
          (hrefs soup)))))"
  by (simp add: analyze_content_def Let_def external_links_filter [OF assms] bind_err_def)

theorem analyze_content_external_links_count_witness:
  "map_of (analyze_content netloc_of_url ''http://a.example/'' (Fetched two_links))
     ''external_links_count'' = Some (PInt 2)"
proof -
  have h: "\<forall>u\<in>set (''http://a.example/'' # hrefs two_links). \<exists>n. netloc_of_url u = Inr n"
    by (simp add: two_links_def netloc_a_example netloc_b_example)
  show ?thesis
    using analyze_content_external_links_count [OF h]
    by (simp add: two_links_def netloc_a_example netloc_b_example)
qed

text \<open>
  C8, as stated, fails: a page that repeats one outbound link twice has the count 2,
  and one distinct link.
\<close>

theorem analyze_content_distinct_links_counterexample:
  "map_of (analyze_content netloc_of_url ''http://a.example/'' (Fetched two_links))
     ''external_links_count'' = Some (PInt 2)
   \<and> card (set (hrefs two_links)) = 1"
proof (intro conjI)
  have "external_links netloc_of_url ''http://a.example/'' (hrefs two_links)
      = Inr [''http://b.example/x'', ''http://b.example/x'']"
    by (simp add: two_links_def netloc_a_example netloc_b_example bind_err_def)
  then show "map_of (analyze_content netloc_of_url ''http://a.example/'' (Fetched two_links))
     ''external_links_count'' = Some (PInt 2)"
    by (simp add: analyze_content_def Let_def bind_err_def)
  show "card (set (hrefs two_links)) = 1"
    by (simp add: two_links_def)
qed

subsection \<open>Claim C9\<close>

text \<open>
  C9, as the source has it. On a failed fetch, and on a link that fails to parse,
  \<^verbatim>\<open>analyze_content\<close> returns the record of an error text and \<open>analyzed = False\<close>, and
  nothing else: the fields \<open>suspicious_keywords\<close>, \<open>has_password_field\<close>, \<open>form_count\<close>,
  \<open>external_links_count\<close>, \<open>title\<close> and \<open>has_favicon\<close> are absent from it. The failure does
  not reach the caller, and the scorer, which reads the absent fields through its own
  defaults, adds nothing for such a record.
\<close>

theorem analyze_content_failure_record:
  "analyze_content netloc url (FetchError e) =
     [(''error'', PStr e), (''analyzed'', PBool False)]
   \<and> (external_links netloc url (hrefs soup) = Inl x \<longrightarrow>
        analyze_content netloc url (Fetched soup) =
          [(''error'', PStr (str_exc x)), (''analyzed'', PBool False)])
   \<and> (\<forall>field\<in>set [''suspicious_keywords'', ''has_password_field'', ''form_count'',
                     ''external_links_count'', ''title'', ''has_favicon''].
        map_of (analyze_content netloc url (FetchError e)) field = None)
   \<and> content_based_features
        [(''content_analysis'', PDict (analyze_content netloc url (FetchError e)))] s = Inr s"
proof (intro conjI impI)
  show "analyze_content netloc url (FetchError e) =
     [(''error'', PStr e), (''analyzed'', PBool False)]"
    by (rule analyze_content_failure)
  show "analyze_content netloc url (Fetched soup) =
          [(''error'', PStr (str_exc x)), (''analyzed'', PBool False)]"
    if "external_links netloc url (hrefs soup) = Inl x"
    using that by (rule analyze_content_parse_failure)
  show "\<forall>field\<in>set [''suspicious_keywords'', ''has_password_field'', ''form_count'',
                     ''external_links_count'', ''title'', ''has_favicon''].
        map_of (analyze_content netloc url (FetchError e)) field = None"
    by (simp add: analyze_content_failure)
  show "content_based_features
        [(''content_analysis'', PDict (analyze_content netloc url (FetchError e)))] s = Inr s"
    by (simp add: analyze_content_failure content_based_features_def dict_get_def bind_err_def)
qed

theorem analyze_content_failure_record_witness:
  "analyze_content netloc_of_url ''http://a.example/'' (Fetched broken_link) =
     [(''error'', PStr ''Invalid IPv6 URL''), (''analyzed'', PBool False)]
   \<and> map_of (analyze_content netloc_of_url ''http://a.example/''
               (FetchError ''connection refused'')) ''form_count'' = None"
proof -
  have h: "external_links netloc_of_url ''http://a.example/'' (hrefs broken_link)
           = Inl (ValueError ''Invalid IPv6 URL'')"
    by (simp add: broken_link_def netloc_broken bind_err_def)
  show ?thesis
    using h analyze_content_failure_record
      [of netloc_of_url "''http://a.example/''" "''connection refused''" broken_link
          "ValueError ''Invalid IPv6 URL''" 0]
    by simp
qed

text \<open>
  C9, as stated, fails: the record of a failed fetch has no \<open>form_count\<close>, no
  \<open>suspicious_keywords\<close> and no \<open>has_password_field\<close>, and it is this record that the
  scenario vector holds.
\<close>

theorem analyze_content_defaults_counterexample:
  "map_of (analyze_content netloc_of_url scenario_url (FetchError ''connection refused''))
     ''form_count'' = None
   \<and> map_of (analyze_content netloc_of_url scenario_url (FetchError ''connection refused''))
     ''suspicious_keywords'' = None
   \<and> map_of (analyze_content netloc_of_url scenario_url (FetchError ''connection refused''))
     ''has_password_field'' = None
   \<and> map_of scenario_features ''content_analysis''
       = Some (PDict [(''error'', PStr ''connection refused''), (''analyzed'', PBool False)])"
  by (simp add: analyze_content_failure scenario_features_def)

section \<open>The scorer on degraded vectors\<close>





subsection \<open>Claim C10\<close>



section \<open>Every extracted vector is a feature vector\<close>

text \<open>
  Whatever the network does, the dictionary that \<^verbatim>\<open>analyze_url\<close> builds satisfies
  \<open>is_feature_vector\<close>: the results about feature vectors apply to every vector the
  detector scores.
\<close>

lemma check_ssl_certificate_typed:
  "optional is_bool (check_ssl_certificate h) ''valid'' \<and>
   optional is_bool (check_ssl_certificate h) ''is_self_signed''"
  by (cases h) (simp_all add: check_ssl_certificate_def optional_def)

lemma analyze_content_typed:
  "optional is_list (analyze_content netloc url response) ''suspicious_keywords'' \<and>
   optional is_bool (analyze_content netloc url response) ''has_password_field'' \<and>
   optional is_int (analyze_content netloc url response) ''external_links_count''"
proof (cases response)
  case (FetchError e)
  then show ?thesis by (simp add: analyze_content_def optional_def)
next
  case (Fetched soup)
  then show ?thesis
    by (cases "external_links netloc url (hrefs soup)")
      (simp_all add: analyze_content_def Let_def bind_err_def optional_def)
qed

lemma get_domain_info_typed:
  "optional is_bool (get_domain_info str now lookup) ''is_new_domain''"
  using get_domain_info_has_is_new_domain [of str now lookup]
  by (auto simp: optional_def)

lemma extract_features_is_feature_vector:
  assumes "extract_features lib cfg w url = Inr f"
  shows "is_feature_vector f"
proof -
  obtain netloc where n: "urlparse_netloc lib url = Inr netloc"
    using assms by (cases "urlparse_netloc lib url") (simp_all add: extract_features_def bind_err_def)
  obtain matches where m: "check_suspicious_patterns (re_search_ignorecase lib)
                 (suspicious_patterns cfg) url = Inr matches"
    using assms n
    by (cases "check_suspicious_patterns (re_search_ignorecase lib) (suspicious_patterns cfg) url")
      (simp_all add: extract_features_def bind_err_def)
  have f: "f = [(''url'', PStr url),
          (''domain'', PStr netloc),
          (''has_ip'', PBool (search_dotted_quad netloc)),
          (''suspicious_patterns'', PList (map PStr matches)),
          (''domain_length'', PInt (int (length netloc))),
          (''subdomain_count'', PInt (int (length (split_on CHR ''.'' netloc)) - 2)),
          (''is_whitelisted'', PBool (netloc \<in> set (whitelist_domains cfg))),
          (''ssl_info'', PDict (check_ssl_certificate (tls_handshake w))),
          (''content_analysis'',
             PDict (analyze_content (urlparse_netloc lib) url (http_get w))),
          (''domain_info'',
             PDict (get_domain_info (datetime_str lib) (clock w) (whois_lookup w)))]"
    using assms by (simp add: extract_features_def bind_err_def n m)
  show ?thesis
    unfolding f is_feature_vector_def
    by (simp add: present_def sub_record_def check_ssl_certificate_typed
        analyze_content_typed get_domain_info_typed)
qed

end
